theory Spec2Isabelle
  imports Complex_Main
begin

section \<open>JavaScript values and errors\<close>

text \<open>
  The values \<open>JSON.parse\<close> can return, and \<open>undefined\<close> for a property that is not
  there. A JSON number is a finite double, read here as a real (\<open>-0\<close> is \<open>0\<close>; both
  are falsy); the code below only tests numbers for truthiness and hands them on.
  An object is the list of its own properties.
\<close>

datatype js = Undefined | JNull | JBool bool | JNum real | JStr string
  | JArr "js list" | JObj "(string \<times> js) list"

datatype js_error = Error string | TypeError string | SyntaxError string

fun message :: "js_error \<Rightarrow> string" where
  "message (Error m) = m"
| "message (TypeError m) = m"
| "message (SyntaxError m) = m"

text \<open>\<open>ToBoolean\<close>, as \<open>x || y\<close> and \<open>if (x)\<close> apply it.\<close>

fun truthy :: "js \<Rightarrow> bool" where
  "truthy Undefined = False"
| "truthy JNull = False"
| "truthy (JBool b) = b"
| "truthy (JNum n) = (n \<noteq> 0)"
| "truthy (JStr s) = (s \<noteq> [])"
| "truthy (JArr xs) = True"
| "truthy (JObj kvs) = True"

text \<open>\<open>x == null\<close>: true of \<open>null\<close> and of \<open>undefined\<close> only.\<close>

fun nullish :: "js \<Rightarrow> bool" where
  "nullish Undefined = True"
| "nullish JNull = True"
| "nullish v = False"

text \<open>
  \<open>data.key\<close> for one of the keys of the edit schema: a \<open>TypeError\<close> on \<open>null\<close> and
  \<open>undefined\<close>, the property's value on an object that has it, \<open>undefined\<close> on every
  other value (no prototype carries these keys). The text of an error the engine raises
  is the engine's; the one written here stands for it.
\<close>

fun get_prop :: "js \<Rightarrow> string \<Rightarrow> js_error + js" where
  "get_prop Undefined k = Inl (TypeError (''Cannot read properties of undefined (reading '' @ k @ '')''))"
| "get_prop JNull k = Inl (TypeError (''Cannot read properties of null (reading '' @ k @ '')''))"
| "get_prop (JObj kvs) k = Inr (case map_of kvs k of None \<Rightarrow> Undefined | Some v \<Rightarrow> v)"
| "get_prop v k = Inr Undefined"

text \<open>A path is a string or \<open>null\<close>; \<open>path ? a : b\<close> takes \<open>b\<close> for \<open>null\<close> and for \<open>''''\<close>.\<close>

fun truthy_path :: "string option \<Rightarrow> bool" where
  "truthy_path None = False"
| "truthy_path (Some p) = (p \<noteq> [])"

section \<open>The state of the page\<close>

text \<open>
  The editor widget, the host application and the JSON parser are not part of the
  program. What the program reads from the widget is a parameter (\<open>runtime\<close>); what
  it tells the widget and the host is recorded in the state.
\<close>

datatype view_state = ViewState (scrollTop: nat) (cursorLine: nat) (cursorColumn: nat)

text \<open>The view of a model that has just been attached to the editor.\<close>

definition initial_view :: view_state where
  "initial_view = ViewState 0 1 1"

text \<open>The four arguments of \<open>new monaco.Range(...)\<close>, as the program passes them.\<close>

datatype monaco_range = MonacoRange (startLineNumber: js) (startColumn: js)
  (endLineNumber: js) (endColumn: js)

record edit_op =
  op_range :: monaco_range
  op_text :: js

record text_model =
  buffer :: string
  language :: string

record tab =
  tab_id :: int
  path :: "string option"
  model :: text_model
  viewState :: "view_state option"
  isDirty :: bool

text \<open>Which functions \<open>window.pywebview.api\<close> offers.\<close>

record host_api =
  has_open_dialog :: bool
  has_save_dialog :: bool
  has_save_as_dialog :: bool
  has_confirm_dialog :: bool
  has_set_active_tab :: bool
  has_create_alert :: bool

datatype host_call =
    SetActiveTab "string option" bool
  | CreateAlert string string
  | ConfirmDialog string string
  | SaveDialog string "string option"

text \<open>
  \<open>tabs\<close>, \<open>nextTabId\<close> and \<open>activeTabId\<close> are the program's globals. \<open>editor\<close> is
  the model attached to the one editor instance, named by the id of the tab that owns
  it, with the editor's current view of it; \<open>None\<close> when no model is attached.
  The elements of the page (tab bar, status bar, dialog overlay, text area) are taken
  to be present, as in the application's page.
\<close>

record state =
  tabs :: "tab list"
  nextTabId :: int
  activeTabId :: int
  editor :: "(int \<times> view_state) option"
  editor_focus_calls :: nat
  modal_hidden :: bool
  surg_text :: string
  tab_bar :: "(string \<times> bool \<times> bool) list"
  renders :: nat
  status_filepath :: string
  pywebview :: "host_api option"
  host_calls :: "host_call list"
  alerts :: "string list"
  pushed_edits :: "(int \<times> edit_op) list"
  revealed :: "monaco_range list"
  languages :: "(string \<times> string list option) list"

text \<open>
  What the program asks of its surroundings: \<open>JSON.parse\<close>, the model's
  \<open>getLineMaxColumn\<close> (on the model's text and a line), the effect of one pushed edit
  on the model's text (the new text, and whether the model reports a content change),
  and the editor's view after \<open>revealRangeInCenter\<close>. Each of the first three may throw.
\<close>

record runtime =
  JSON_parse :: "string \<Rightarrow> js_error + js"
  getLineMaxColumn :: "string \<Rightarrow> js \<Rightarrow> js_error + js"
  applyEdits :: "string \<Rightarrow> edit_op \<Rightarrow> js_error + (string \<times> bool)"
  revealRange :: "view_state \<Rightarrow> monaco_range \<Rightarrow> view_state"

text \<open>
  \<open>window.pywebview && window.pywebview.api && window.pywebview.api.f\<close>. A call of
  \<open>window.pywebview.api.f\<close> that is not guarded so throws a \<open>TypeError\<close> where this
  is false.
\<close>

definition has_api :: "(host_api \<Rightarrow> bool) \<Rightarrow> state \<Rightarrow> bool" where
  "has_api f s = (case pywebview s of None \<Rightarrow> False | Some api \<Rightarrow> f api)"

text \<open>The globals as the program initialises them, before the first tab.\<close>

definition initial_state :: "host_api option \<Rightarrow> (string \<times> string list option) list \<Rightarrow> state" where
  "initial_state host langs =
     \<lparr>tabs = [], nextTabId = 0, activeTabId = -1, editor = None, editor_focus_calls = 0,
      modal_hidden = True, surg_text = [], tab_bar = [], renders = 0,
      status_filepath = [], pywebview = host, host_calls = [], alerts = [],
      pushed_edits = [], revealed = [], languages = langs\<rparr>"

section \<open>Tab helper functions\<close>

fun findIndex :: "('a \<Rightarrow> bool) \<Rightarrow> 'a list \<Rightarrow> nat option" where
  "findIndex P [] = None"
| "findIndex P (x # xs) = (if P x then Some 0 else map_option Suc (findIndex P xs))"

text \<open>\<open>xs[i]\<close>: \<open>undefined\<close> out of range.\<close>

definition nth_opt :: "'a list \<Rightarrow> nat \<Rightarrow> 'a option" where
  "nth_opt xs i = (if i < length xs then Some (xs ! i) else None)"

definition getTab :: "int \<Rightarrow> state \<Rightarrow> tab option" where
  "getTab tabId s = List.find (\<lambda>t. tab_id t = tabId) (tabs s)"

definition getActiveTab :: "state \<Rightarrow> tab option" where
  "getActiveTab s = getTab (activeTabId s) s"

text \<open>
  A write to a field of the tab object that \<open>getTab\<close> returned: the first tab of the
  list with that id is the one written.
\<close>

fun update_tab :: "int \<Rightarrow> (tab \<Rightarrow> tab) \<Rightarrow> tab list \<Rightarrow> tab list" where
  "update_tab i f [] = []"
| "update_tab i f (t # ts) = (if tab_id t = i then f t # ts else t # update_tab i f ts)"

text \<open>\<open>p.split('.').pop()\<close> and \<open>p.split(/[\\/]/).pop()\<close>: what follows the last separator.\<close>

definition after_last :: "(char \<Rightarrow> bool) \<Rightarrow> string \<Rightarrow> string" where
  "after_last sep p = rev (takeWhile (\<lambda>c. \<not> sep c) (rev p))"

definition languageFromPath :: "(string \<times> string list option) list \<Rightarrow> string option \<Rightarrow> string" where
  "languageFromPath langs p =
     (case p of
        None \<Rightarrow> ''plaintext''
      | Some q \<Rightarrow>
          if q = [] then ''plaintext''
          else
            let ext = CHR ''.'' # after_last (\<lambda>c. c = CHR ''.'') q in
            (case List.find (\<lambda>l. case snd l of None \<Rightarrow> False | Some es \<Rightarrow> ext \<in> set es) langs of
               None \<Rightarrow> ''plaintext''
             | Some hit \<Rightarrow> fst hit))"

definition tab_name :: "tab \<Rightarrow> string" where
  "tab_name t =
     (case path t of
        None \<Rightarrow> ''Untitled''
      | Some q \<Rightarrow>
          if q = [] then ''Untitled''
          else after_last (\<lambda>c. c = CHR ''/'' \<or> c = CHR 0x5C) q)"

definition renderTabs :: "state \<Rightarrow> state" where
  "renderTabs s =
     (let activeTab = getActiveTab s;
          p = (case activeTab of None \<Rightarrow> None
               | Some t \<Rightarrow> if truthy_path (path t) then path t else None);
          d = (case activeTab of None \<Rightarrow> False | Some t \<Rightarrow> isDirty t)
      in s\<lparr>tab_bar := map (\<lambda>t. (tab_name t, tab_id t = activeTabId s, isDirty t)) (tabs s),
           renders := renders s + 1,
           host_calls :=
             (if has_api has_set_active_tab s then host_calls s @ [SetActiveTab p d]
              else host_calls s),
           status_filepath := (case p of None \<Rightarrow> ''[Untitled]'' | Some q \<Rightarrow> q)\<rparr>)"

section \<open>The editor instance\<close>

definition saveViewState :: "state \<Rightarrow> view_state option" where
  "saveViewState s = map_option snd (editor s)"

text \<open>\<open>editor.setModel\<close>: nothing when that model is the one attached already.\<close>

definition setModel :: "int option \<Rightarrow> state \<Rightarrow> state" where
  "setModel m s =
     (if map_option fst (editor s) = m then s
      else s\<lparr>editor := map_option (\<lambda>i. (i, initial_view)) m\<rparr>)"

definition restoreViewState :: "view_state \<Rightarrow> state \<Rightarrow> state" where
  "restoreViewState v s = s\<lparr>editor := map_option (\<lambda>(i, w). (i, v)) (editor s)\<rparr>"

definition focus_editor :: "state \<Rightarrow> state" where
  "focus_editor s = s\<lparr>editor_focus_calls := editor_focus_calls s + 1\<rparr>"

text \<open>\<open>model.dispose()\<close>: the editor lets go of a model that is disposed.\<close>

definition dispose :: "int \<Rightarrow> state \<Rightarrow> state" where
  "dispose i s = (if map_option fst (editor s) = Some i then s\<lparr>editor := None\<rparr> else s)"

section \<open>Tab manager\<close>

definition switchTab :: "int \<Rightarrow> state \<Rightarrow> state" where
  "switchTab tabId s =
     (if activeTabId s = tabId then s
      else
        let s1 = (case getActiveTab s of
                    None \<Rightarrow> s
                  | Some currentTab \<Rightarrow>
                      s\<lparr>tabs := update_tab (tab_id currentTab)
                                  (\<lambda>t. t\<lparr>viewState := saveViewState s\<rparr>) (tabs s)\<rparr>);
            s2 = s1\<lparr>activeTabId := tabId\<rparr>;
            newTab = getActiveTab s2;
            s3 = setModel (map_option tab_id newTab) s2;
            s4 = (case newTab of
                    None \<Rightarrow> s3
                  | Some t \<Rightarrow> (case viewState t of None \<Rightarrow> s3 | Some v \<Rightarrow> restoreViewState v s3))
        in renderTabs (focus_editor s4))"

text \<open>
  \<open>monaco.editor.createModel\<close>: \<open>buffer\<close> is the text the program hands to the widget;
  what the widget makes of its line ends is the widget's and is not modelled.
\<close>

definition createModel :: "string \<Rightarrow> string \<Rightarrow> text_model" where
  "createModel txt lang = \<lparr>buffer = txt, language = lang\<rparr>"

definition addTab :: "string option \<Rightarrow> string \<Rightarrow> state \<Rightarrow> state" where
  "addTab p txt s =
     (case (if truthy_path p then List.find (\<lambda>t. path t = p) (tabs s) else None) of
        Some existing \<Rightarrow> switchTab (tab_id existing) s
      | None \<Rightarrow>
          let newTab = \<lparr>tab_id = nextTabId s, path = p,
                        model = createModel txt (languageFromPath (languages s) p),
                        viewState = None, isDirty = False\<rparr>;
              s1 = s\<lparr>nextTabId := nextTabId s + 1, tabs := tabs s @ [newTab]\<rparr>
          in switchTab (tab_id newTab) s1)"

text \<open>
  The observer \<open>addTab\<close> registers on the new tab's model, run at each content change
  the model reports.
\<close>

definition onDidChangeContent :: "int \<Rightarrow> state \<Rightarrow> state" where
  "onDidChangeContent i s =
     (case getTab i s of
        None \<Rightarrow> s
      | Some newTab \<Rightarrow>
          if \<not> isDirty newTab
          then renderTabs (s\<lparr>tabs := update_tab i (\<lambda>t. t\<lparr>isDirty := True\<rparr>) (tabs s)\<rparr>)
          else s)"

text \<open>
  \<open>closeTab\<close> is an \<open>async\<close> function: for a dirty tab it stops at
  \<open>await confirm_dialog\<close>, and other handlers of the page may run before the host
  answers. Its body is therefore modelled in its parts. \<open>closeTab_remove\<close> and
  \<open>closeTab_finish\<close> are the removal with the choice of the next active tab and the
  final rendering; \<open>closeTab_after\<close> is the code after the wait, run on the state of
  that moment with the index \<open>tabIdx\<close> taken before the wait (\<open>splice\<close> removes nothing
  at an index past the end, and \<open>removedTab.model\<close> then throws);
  \<open>closeTab_resume\<close> is the continuation with the host's answer.
\<close>

definition closeTab_remove :: "nat \<Rightarrow> int \<Rightarrow> state \<Rightarrow> state" where
  "closeTab_remove tabIdx tabId s =
     (let removedTab = tabs s ! tabIdx;
          s1 = s\<lparr>tabs := take tabIdx (tabs s) @ drop (Suc tabIdx) (tabs s)\<rparr>;
          s2 = dispose (tab_id removedTab) s1
      in if activeTabId s2 = tabId
         then
           let newActiveIdx = nat (max 0 (int tabIdx - 1));
               newActiveTab = (if length (tabs s2) > 0 then nth_opt (tabs s2) newActiveIdx else None)
           in switchTab (case newActiveTab of Some t \<Rightarrow> tab_id t | None \<Rightarrow> -1) s2
         else s2)"

definition closeTab_finish :: "state \<Rightarrow> state" where
  "closeTab_finish s = (if length (tabs s) = 0 then addTab None [] s else renderTabs s)"

definition confirm_dialog_called :: "state \<Rightarrow> state" where
  "confirm_dialog_called s =
     s\<lparr>host_calls := host_calls s @
        [ConfirmDialog ''Unsaved Changes''
           ''You have unsaved changes. Are you sure you want to close this tab?'']\<rparr>"

definition closeTab_after :: "nat \<Rightarrow> int \<Rightarrow> state \<Rightarrow> js_error + state" where
  "closeTab_after tabIdx tabId s =
     (if tabIdx < length (tabs s)
      then Inr (closeTab_finish (closeTab_remove tabIdx tabId s))
      else Inl (TypeError ''removedTab is undefined''))"

definition closeTab_resume :: "bool \<Rightarrow> nat \<Rightarrow> int \<Rightarrow> state \<Rightarrow> js_error + state" where
  "closeTab_resume confirmed tabIdx tabId s =
     (if \<not> confirmed then Inr s else closeTab_after tabIdx tabId s)"

text \<open>
  The whole of \<open>closeTab\<close>. \<open>confirmed\<close> is the host's answer, read only when the tab
  is dirty, and \<open>during\<close> is what the handlers that ran while the dialog was open made
  of the state. A clean tab is closed without a wait.
\<close>

definition closeTab_with :: "(state \<Rightarrow> state) \<Rightarrow> bool \<Rightarrow> int \<Rightarrow> state \<Rightarrow> js_error + state" where
  "closeTab_with during confirmed tabId s =
     (case findIndex (\<lambda>t. tab_id t = tabId) (tabs s) of
        None \<Rightarrow> Inr s
      | Some tabIdx \<Rightarrow>
          (case getTab tabId s of
             None \<Rightarrow> Inl (TypeError ''tabToClose is undefined'')
           | Some tabToClose \<Rightarrow>
               if isDirty tabToClose
               then
                 if \<not> has_api has_confirm_dialog s
                 then Inl (TypeError ''window.pywebview.api.confirm_dialog is not a function'')
                 else closeTab_resume confirmed tabIdx tabId (during (confirm_dialog_called s))
               else closeTab_after tabIdx tabId s))"

text \<open>The run of \<open>closeTab\<close> in which nothing else happens while the dialog is open.\<close>

definition closeTab :: "bool \<Rightarrow> int \<Rightarrow> state \<Rightarrow> js_error + state" where
  "closeTab confirmed tabId s = closeTab_with (\<lambda>u. u) confirmed tabId s"

text \<open>
  What \<open>id: nextTabId++\<close> keeps true of the tab list: the ids are distinct and below
  the counter.
\<close>

definition tabs_ok :: "state \<Rightarrow> bool" where
  "tabs_ok s = (distinct (map tab_id (tabs s)) \<and> (\<forall>t\<in>set (tabs s). tab_id t < nextTabId s))"

section \<open>File operations\<close>

text \<open>
  What \<open>save_dialog\<close> resolves to: an object with \<open>saved\<close> and \<open>path\<close>, or nothing
  (\<open>None\<close>). \<open>doSave\<close> takes it as its argument and is taken as one step.
\<close>

record save_response =
  saved :: bool
  res_path :: "string option"

definition setModelLanguage :: "text_model \<Rightarrow> string \<Rightarrow> text_model" where
  "setModelLanguage m lang = m\<lparr>language := lang\<rparr>"

definition doSave :: "save_response option \<Rightarrow> state \<Rightarrow> js_error + state" where
  "doSave res s =
     (case getActiveTab s of
        None \<Rightarrow> Inr s
      | Some tab \<Rightarrow>
          if \<not> has_api has_save_dialog s
          then Inl (TypeError ''window.pywebview.api.save_dialog is not a function'')
          else
            let s0 = s\<lparr>host_calls := host_calls s @ [SaveDialog (buffer (model tab)) (path tab)]\<rparr>
            in (case res of
                  None \<Rightarrow> Inr s0
                | Some r \<Rightarrow>
                    if saved r \<and> truthy_path (res_path r)
                    then Inr (renderTabs (s0\<lparr>tabs := update_tab (tab_id tab)
                           (\<lambda>t. t\<lparr>path := res_path r, isDirty := False,
                                  model := setModelLanguage (model t)
                                    (languageFromPath (languages s0) (res_path r))\<rparr>)
                           (tabs s0)\<rparr>))
                    else Inr s0))"

section \<open>Surgical replace dialog\<close>

definition cancelSurgicalReplace :: "state \<Rightarrow> state" where
  "cancelSurgicalReplace s = focus_editor (s\<lparr>modal_hidden := True\<rparr>)"

text \<open>The \<open>catch\<close> block: the host's alert when it has one, the browser's otherwise.\<close>

definition report_error :: "js_error \<Rightarrow> state \<Rightarrow> state" where
  "report_error e s =
     (let msg = ''Could not apply changes. Please ensure the text is valid JSON and matches the required schema.''
                @ [CHR 0x0A, CHR 0x0A] @ message e
      in if has_api has_create_alert s
         then s\<lparr>host_calls := host_calls s @ [CreateAlert ''JSON Parse Error'' msg]\<rparr>
         else s\<lparr>alerts := alerts s @ [msg]\<rparr>)"

text \<open>
  \<open>tab.model.pushEditOperations\<close> with one edit: the model's text becomes what the
  widget makes of the edit, and the observer of \<open>addTab\<close> runs when the model reports
  a content change.
\<close>

definition pushEditOperations :: "runtime \<Rightarrow> tab \<Rightarrow> edit_op \<Rightarrow> state \<Rightarrow> js_error + state" where
  "pushEditOperations rt tab ed s =
     (case applyEdits rt (buffer (model tab)) ed of
        Inl e \<Rightarrow> Inl e
      | Inr (txt, changed) \<Rightarrow>
          let s1 = s\<lparr>tabs := update_tab (tab_id tab) (\<lambda>t. t\<lparr>model := (model t)\<lparr>buffer := txt\<rparr>\<rparr>) (tabs s),
                     pushed_edits := pushed_edits s @ [(tab_id tab, ed)]\<rparr>
          in Inr (if changed then onDidChangeContent (tab_id tab) s1 else s1))"

definition revealRangeInCenter :: "runtime \<Rightarrow> monaco_range \<Rightarrow> state \<Rightarrow> state" where
  "revealRangeInCenter rt r s =
     s\<lparr>editor := map_option (\<lambda>(i, v). (i, revealRange rt v r)) (editor s),
       revealed := revealed s @ [r]\<rparr>"

text \<open>A statement that may throw, followed by the rest of the block.\<close>

fun bind_err :: "'e + 'a \<Rightarrow> ('a \<Rightarrow> 'e + 'b) \<Rightarrow> 'e + 'b" where
  "bind_err (Inl e) f = Inl e"
| "bind_err (Inr x) f = f x"

text \<open>The body of the \<open>try\<close> block of \<open>applySurgicalReplace\<close>.\<close>

definition surgical_try :: "runtime \<Rightarrow> state \<Rightarrow> js_error + state" where
  "surgical_try rt s =
     bind_err (JSON_parse rt (surg_text s)) (\<lambda>data.
     bind_err (get_prop data ''start_line'') (\<lambda>sline.
     bind_err (get_prop data ''end_line'') (\<lambda>eline.
     bind_err (get_prop data ''start_column'') (\<lambda>scol.
     bind_err (get_prop data ''end_column'') (\<lambda>ecol.
     bind_err (get_prop data ''replacement_code'') (\<lambda>txt.
       if nullish sline \<or> nullish eline \<or> nullish txt
       then Inl (Error ''Missing required fields in JSON: start_line, end_line, replacement_code'')
       else
         (case getActiveTab s of
            None \<Rightarrow> Inr (cancelSurgicalReplace s)
          | Some tab \<Rightarrow>
              let startColumn = (if truthy scol then scol else JNum 1) in
              bind_err (if truthy ecol then Inr ecol
                        else getLineMaxColumn rt (buffer (model tab)) eline) (\<lambda>endColumn.
              let range = MonacoRange sline startColumn eline endColumn in
              bind_err (pushEditOperations rt tab \<lparr>op_range = range, op_text = txt\<rparr> s) (\<lambda>s1.
                Inr (cancelSurgicalReplace (revealRangeInCenter rt range s1)))))))))))"

definition applySurgicalReplace :: "runtime \<Rightarrow> state \<Rightarrow> state" where
  "applySurgicalReplace rt s =
     (if surg_text s = [] then cancelSurgicalReplace s
      else (case surgical_try rt s of
              Inl e \<Rightarrow> report_error e s
            | Inr s' \<Rightarrow> s'))"

section \<open>Concrete runs\<close>

text \<open>
  Inputs for running the program on: a host that offers the whole API, a language
  registry that knows \<open>.py\<close>, and a runtime for one-line documents. Its parser
  answers \<open>data\<close> for the text of the dialog; the maximum column of line 1 is one past
  the line's length, as the widget counts columns; an edit within line 1 replaces the
  characters from its start column up to, not including, its end column.
\<close>

definition full_host :: host_api where
  "full_host = \<lparr>has_open_dialog = True, has_save_dialog = True, has_save_as_dialog = True,
     has_confirm_dialog = True, has_set_active_tab = True, has_create_alert = True\<rparr>"

definition sample_runtime :: "js \<Rightarrow> runtime" where
  "sample_runtime data =
     \<lparr>JSON_parse = (\<lambda>txt. Inr data),
      getLineMaxColumn = (\<lambda>txt l.
        if l = JNum 1 then Inr (JNum (real (length txt) + 1))
        else Inl (Error ''Illegal value for lineNumber'')),
      applyEdits = (\<lambda>txt ed.
        case (op_range ed, op_text ed) of
          (MonacoRange (JNum sl) (JNum sc) (JNum el) (JNum ec), JStr r) \<Rightarrow>
            if sl = 1 \<and> el = 1
            then Inr (take (nat \<lfloor>sc\<rfloor> - 1) txt @ r @ drop (nat \<lfloor>ec\<rfloor> - 1) txt, True)
            else Inl (Error ''Illegal value for lineNumber'')
        | _ \<Rightarrow> Inl (Error ''Illegal edit'')),
      revealRange = (\<lambda>v r. v)\<rparr>"

text \<open>
  \<open>a.txt\<close> opened at start; then \<open>b.txt\<close> opened as well; \<open>a.txt\<close> opened and changed
  once; a document of one line of ten characters with the dialog open on it.
\<close>

definition one_tab :: state where
  "one_tab = addTab (Some ''a.txt'') ''hello''
               (initial_state (Some full_host) [(''python'', Some [''.py''])])"

definition two_tabs :: state where
  "two_tabs = addTab (Some ''b.txt'') ''world'' one_tab"

definition edited_tab :: state where
  "edited_tab = onDidChangeContent 0 one_tab"

definition ten_chars :: "string \<Rightarrow> state" where
  "ten_chars input =
     (addTab (Some ''t.txt'') ''0123456789''
        (initial_state (Some full_host) [(''python'', Some [''.py''])]))
       \<lparr>modal_hidden := False, surg_text := input\<rparr>"

text \<open>An edit of line 1 from column 4 on, with no end column.\<close>

definition sample_edit :: js where
  "sample_edit = JObj [(''start_line'', JNum 1), (''end_line'', JNum 1),
                       (''start_column'', JNum 4), (''replacement_code'', JStr ''X'')]"

text \<open>A document opened under the empty string as its path, with no host.\<close>

definition empty_path_tab :: state where
  "empty_path_tab = addTab (Some []) ''x'' (initial_state None [])"

text \<open>The two tabs, with the editor scrolled down in \<open>b.txt\<close>.\<close>

definition scrolled :: state where
  "scrolled = two_tabs\<lparr>editor := Some (1, ViewState 40 7 3)\<rparr>"


definition close_a :: "state \<Rightarrow> state" where
  "close_a s = (case closeTab True 0 s of Inl e \<Rightarrow> s | Inr s' \<Rightarrow> s')"

section \<open>Lists of tabs\<close>

lemma findIndex_Some:
  "findIndex P xs = Some i \<Longrightarrow> i < length xs \<and> P (xs ! i) \<and> List.find P xs = Some (xs ! i)"
proof (induction xs arbitrary: i)
  case Nil
  then show ?case by simp
next
  case (Cons x xs)
  show ?case
  proof (cases "P x")
    case True
    with Cons.prems show ?thesis by simp
  next
    case False
    with Cons.prems obtain k where k: "findIndex P xs = Some k" "i = Suc k" by auto
    from Cons.IH[OF k(1)] False k(2) show ?thesis by simp
  qed
qed

lemma findIndex_None: "findIndex P xs = None \<longleftrightarrow> (\<forall>x\<in>set xs. \<not> P x)"
  by (induction xs) auto

lemma find_findIndex: "List.find P xs = Some t \<Longrightarrow> \<exists>i. findIndex P xs = Some i \<and> xs ! i = t"
  by (induction xs) (auto split: if_splits)

lemma find_Some_holds: "List.find P xs = Some t \<Longrightarrow> P t \<and> t \<in> set xs"
  by (induction xs) (auto split: if_splits)

lemma length_update_tab [simp]: "length (update_tab i f ts) = length ts"
  by (induction ts) auto

lemma map_update_tab:
  "(\<And>t. g (f t) = g t) \<Longrightarrow> map g (update_tab i f ts) = map g ts"
  by (induction ts) auto

lemma find_update_tab_other:
  "(\<And>t. tab_id (f t) = tab_id t) \<Longrightarrow> i \<noteq> j \<Longrightarrow>
   List.find (\<lambda>t. tab_id t = j) (update_tab i f ts) = List.find (\<lambda>t. tab_id t = j) ts"
  by (induction ts) auto

lemma find_update_tab_same:
  "(\<And>t. tab_id (f t) = tab_id t) \<Longrightarrow>
   List.find (\<lambda>t. tab_id t = i) (update_tab i f ts) = map_option f (List.find (\<lambda>t. tab_id t = i) ts)"
  by (induction ts) auto

lemma update_tab_absent:
  "\<forall>t\<in>set ts. tab_id t \<noteq> i \<Longrightarrow> update_tab i f ts = ts"
  by (induction ts) auto

lemma update_tab_snoc:
  "tab_id n \<noteq> i \<Longrightarrow> update_tab i f (ts @ [n]) = update_tab i f ts @ [n]"
  by (induction ts) auto

text \<open>\<open>renderTabs\<close> rebuilds the tab bar and the status line, and tells the host; it leaves the rest alone.\<close>

lemma renderTabs_fields [simp]:
  "tabs (renderTabs s) = tabs s" "activeTabId (renderTabs s) = activeTabId s"
  "nextTabId (renderTabs s) = nextTabId s" "editor (renderTabs s) = editor s"
  "alerts (renderTabs s) = alerts s" "pushed_edits (renderTabs s) = pushed_edits s"
  "modal_hidden (renderTabs s) = modal_hidden s"
  "editor_focus_calls (renderTabs s) = editor_focus_calls s"
  "renders (renderTabs s) = renders s + 1" "pywebview (renderTabs s) = pywebview s"
  "languages (renderTabs s) = languages s" "surg_text (renderTabs s) = surg_text s"
  by (simp_all add: renderTabs_def Let_def)

lemma getTab_renderTabs [simp]: "getTab i (renderTabs s) = getTab i s"
  by (simp add: getTab_def)

lemma getActiveTab_renderTabs [simp]: "getActiveTab (renderTabs s) = getActiveTab s"
  by (simp add: getActiveTab_def)

lemma switchTab_same [simp]: "switchTab (activeTabId s) s = s"
  by (simp add: switchTab_def)

lemma switchTab_active [simp]: "activeTabId (switchTab i s) = i"
  by (simp add: switchTab_def Let_def setModel_def restoreViewState_def focus_editor_def
      split: option.splits)

lemma switchTab_fields [simp]:
  "nextTabId (switchTab i s) = nextTabId s" "alerts (switchTab i s) = alerts s"
  "pushed_edits (switchTab i s) = pushed_edits s" "modal_hidden (switchTab i s) = modal_hidden s"
  "pywebview (switchTab i s) = pywebview s" "languages (switchTab i s) = languages s"
  "surg_text (switchTab i s) = surg_text s"
  by (simp_all add: switchTab_def Let_def setModel_def restoreViewState_def focus_editor_def
      split: option.splits)

lemma switchTab_tabs:
  "tabs (switchTab i s) =
     (if activeTabId s = i then tabs s
      else case getActiveTab s of None \<Rightarrow> tabs s
           | Some c \<Rightarrow> update_tab (activeTabId s) (\<lambda>t. t\<lparr>viewState := saveViewState s\<rparr>) (tabs s))"
  by (auto simp add: switchTab_def Let_def setModel_def restoreViewState_def focus_editor_def
      getActiveTab_def getTab_def
      split: option.splits dest: find_Some_holds)

lemma switchTab_length [simp]: "length (tabs (switchTab i s)) = length (tabs s)"
  by (simp add: switchTab_tabs split: option.splits)

lemma switchTab_map:
  "(\<And>t v. g (t\<lparr>viewState := v\<rparr>) = g t) \<Longrightarrow> map g (tabs (switchTab i s)) = map g (tabs s)"
  by (simp add: switchTab_tabs map_update_tab split: option.splits)

lemma find_snoc_fresh:
  "\<forall>t\<in>set xs. \<not> P t \<Longrightarrow> P n \<Longrightarrow> List.find P (xs @ [n]) = Some n"
  by (induction xs) auto

lemma getTab_switchTab:
  "getTab j (switchTab i s) =
     (if activeTabId s \<noteq> i \<and> j = activeTabId s
      then map_option (\<lambda>t. t\<lparr>viewState := saveViewState s\<rparr>) (getTab j s)
      else getTab j s)"
proof (cases "getActiveTab s")
  case None
  then show ?thesis
    by (auto simp: getTab_def getActiveTab_def switchTab_tabs)
next
  case (Some c)
  then show ?thesis
    by (auto simp: getTab_def getActiveTab_def switchTab_tabs find_update_tab_same
        find_update_tab_other)
qed

lemma find_exists: "t \<in> set xs \<Longrightarrow> P t \<Longrightarrow> \<exists>u. List.find P xs = Some u \<and> P u"
  by (induction xs) auto

lemma languageFromPath_falsy: "\<not> truthy_path p \<Longrightarrow> languageFromPath langs p = ''plaintext''"
  by (cases p) (simp_all add: languageFromPath_def)

lemma addTab_new:
  assumes "\<not> truthy_path p"
  shows "length (tabs (addTab p txt s)) = length (tabs s) + 1
       \<and> last (tabs (addTab p txt s)) =
           \<lparr>tab_id = nextTabId s, path = p, model = createModel txt ''plaintext'',
            viewState = None, isDirty = False\<rparr>
       \<and> nextTabId (addTab p txt s) = nextTabId s + 1"
  using assms
  by (simp add: addTab_def Let_def switchTab_tabs update_tab_snoc languageFromPath_falsy
      split: option.splits)

section \<open>The observer, the dialog and the edit\<close>

lemma getTab_in_tabs: "getTab i s = Some t \<Longrightarrow> tab_id t = i \<and> t \<in> set (tabs s)"
  unfolding getTab_def by (auto dest: find_Some_holds)

lemma getTab_update_same:
  "(\<And>t. tab_id (f t) = tab_id t) \<Longrightarrow>
   getTab i (s\<lparr>tabs := update_tab i f (tabs s)\<rparr>) = map_option f (getTab i s)"
  by (simp add: getTab_def find_update_tab_same)

lemma onDidChangeContent_fields [simp]:
  "pushed_edits (onDidChangeContent i s) = pushed_edits s"
  "revealed (onDidChangeContent i s) = revealed s"
  "editor (onDidChangeContent i s) = editor s"
  "activeTabId (onDidChangeContent i s) = activeTabId s"
  "alerts (onDidChangeContent i s) = alerts s"
  "modal_hidden (onDidChangeContent i s) = modal_hidden s"
  "editor_focus_calls (onDidChangeContent i s) = editor_focus_calls s"
  by (simp_all add: onDidChangeContent_def renderTabs_def Let_def split: option.splits)

lemma update_tab_fixed:
  "List.find (\<lambda>t. tab_id t = i) ts = Some t \<Longrightarrow> f t = t \<Longrightarrow> update_tab i f ts = ts"
  by (induction ts) (auto split: if_splits)

lemma onDidChangeContent_tabs:
  "tabs (onDidChangeContent i s) = update_tab i (\<lambda>t. t\<lparr>isDirty := True\<rparr>) (tabs s)"
proof (cases "getTab i s")
  case None
  then have "\<forall>t\<in>set (tabs s). tab_id t \<noteq> i"
    by (simp add: getTab_def find_None_iff)
  with None show ?thesis
    by (simp add: onDidChangeContent_def update_tab_absent)
next
  case (Some t)
  have *: "isDirty t \<Longrightarrow> update_tab i (\<lambda>t. t\<lparr>isDirty := True\<rparr>) (tabs s) = tabs s"
    using Some unfolding getTab_def by (intro update_tab_fixed [of _ _ t]) simp_all
  show ?thesis
    using Some * by (simp add: onDidChangeContent_def)
qed

lemma getTab_onDidChangeContent:
  "getTab i (onDidChangeContent j s) =
     (if i = j then map_option (\<lambda>t. t\<lparr>isDirty := True\<rparr>) (getTab i s) else getTab i s)"
  by (simp add: getTab_def onDidChangeContent_tabs find_update_tab_same find_update_tab_other)

lemma cancelSurgicalReplace_fields [simp]:
  "tabs (cancelSurgicalReplace s) = tabs s" "pushed_edits (cancelSurgicalReplace s) = pushed_edits s"
  "revealed (cancelSurgicalReplace s) = revealed s" "modal_hidden (cancelSurgicalReplace s)"
  "alerts (cancelSurgicalReplace s) = alerts s" "host_calls (cancelSurgicalReplace s) = host_calls s"
  "editor_focus_calls (cancelSurgicalReplace s) = editor_focus_calls s + 1"
  "activeTabId (cancelSurgicalReplace s) = activeTabId s"
  by (simp_all add: cancelSurgicalReplace_def focus_editor_def)

lemma revealRangeInCenter_fields [simp]:
  "tabs (revealRangeInCenter rt r s) = tabs s"
  "pushed_edits (revealRangeInCenter rt r s) = pushed_edits s"
  "revealed (revealRangeInCenter rt r s) = revealed s @ [r]"
  "alerts (revealRangeInCenter rt r s) = alerts s"
  "activeTabId (revealRangeInCenter rt r s) = activeTabId s"
  by (simp_all add: revealRangeInCenter_def)

lemma pushEditOperations_ok:
  assumes "applyEdits rt (buffer (model tab)) ed = Inr (new_text, changed)"
      and "getTab (tab_id tab) s = Some tab"
  shows "\<exists>s1. pushEditOperations rt tab ed s = Inr s1
       \<and> pushed_edits s1 = pushed_edits s @ [(tab_id tab, ed)]
       \<and> revealed s1 = revealed s \<and> alerts s1 = alerts s
       \<and> map_option (\<lambda>t. buffer (model t)) (getTab (tab_id tab) s1) = Some new_text
       \<and> (changed \<longrightarrow> map_option isDirty (getTab (tab_id tab) s1) = Some True)"
  using assms
  by (simp add: pushEditOperations_def Let_def getTab_def onDidChangeContent_tabs
      find_update_tab_same)

lemma report_error_fields [simp]:
  "tabs (report_error e s) = tabs s" "pushed_edits (report_error e s) = pushed_edits s"
  "modal_hidden (report_error e s) = modal_hidden s"
  "editor_focus_calls (report_error e s) = editor_focus_calls s"
  "editor (report_error e s) = editor s" "activeTabId (report_error e s) = activeTabId s"
  by (simp_all add: report_error_def Let_def)

lemma surgical_try_missing:
  assumes "JSON_parse rt (surg_text s) = Inr data"
      and "(\<forall>v. get_prop data ''start_line'' = Inr v \<longrightarrow> nullish v)
         \<or> (\<forall>v. get_prop data ''end_line'' = Inr v \<longrightarrow> nullish v)
         \<or> (\<forall>v. get_prop data ''replacement_code'' = Inr v \<longrightarrow> nullish v)"
  shows "surgical_try rt s =
           Inl (case get_prop data ''start_line'' of
                  Inl e \<Rightarrow> e
                | Inr v \<Rightarrow> Error ''Missing required fields in JSON: start_line, end_line, replacement_code'')"
  using assms by (cases data) (auto simp: surgical_try_def)

section \<open>Removing a tab\<close>

lemma dispose_fields [simp]:
  "tabs (dispose i s) = tabs s" "nextTabId (dispose i s) = nextTabId s"
  "activeTabId (dispose i s) = activeTabId s" "languages (dispose i s) = languages s"
  by (simp_all add: dispose_def)

lemma getTab_dispose [simp]: "getTab i (dispose j s) = getTab i s"
  by (simp add: getTab_def)

lemma closeTab_remove_length:
  "idx < length (tabs s) \<Longrightarrow>
   length (tabs (closeTab_remove idx tabId s)) = length (tabs s) - 1"
  by (auto simp: closeTab_remove_def Let_def)

lemma closeTab_remove_nextTabId [simp]:
  "nextTabId (closeTab_remove idx tabId s) = nextTabId s"
  by (simp add: closeTab_remove_def Let_def)

lemma closeTab_finish_nonempty: "tabs (closeTab_finish s) \<noteq> []"
proof (cases "tabs s = []")
  case True
  have "length (tabs (addTab None [] s)) = length (tabs s) + 1"
    using addTab_new [of None "[]" s] by simp
  with True show ?thesis
    by (auto simp: closeTab_finish_def)
next
  case False
  then show ?thesis
    by (simp add: closeTab_finish_def)
qed

lemma closeTab_finish_length:
  "length (tabs (closeTab_finish s)) = (if tabs s = [] then 1 else length (tabs s))"
  using addTab_new [of None "[]" s] by (simp add: closeTab_finish_def)

lemma closeTab_finish_empty:
  assumes "tabs s = []"
  shows "tabs (closeTab_finish s) =
           [\<lparr>tab_id = nextTabId s, path = None, model = createModel [] ''plaintext'',
             viewState = None, isDirty = False\<rparr>]
       \<and> activeTabId (closeTab_finish s) = nextTabId s"
proof -
  have l: "length (tabs (addTab None [] s)) = 1"
    and n: "last (tabs (addTab None [] s)) =
           \<lparr>tab_id = nextTabId s, path = None, model = createModel [] ''plaintext'',
             viewState = None, isDirty = False\<rparr>"
    using addTab_new [of None "[]" s] assms by simp_all
  from l obtain x where x: "tabs (addTab None [] s) = [x]"
    by (cases "tabs (addTab None [] s)") auto
  with n have "tabs (addTab None [] s) =
           [\<lparr>tab_id = nextTabId s, path = None, model = createModel [] ''plaintext'',
             viewState = None, isDirty = False\<rparr>]"
    by simp
  moreover have "activeTabId (addTab None [] s) = nextTabId s"
    by (simp add: addTab_def Let_def)
  ultimately show ?thesis
    using assms by (simp add: closeTab_finish_def)
qed

lemma confirm_dialog_called_fields [simp]:
  "tabs (confirm_dialog_called s) = tabs s" "nextTabId (confirm_dialog_called s) = nextTabId s"
  "activeTabId (confirm_dialog_called s) = activeTabId s"
  "editor (confirm_dialog_called s) = editor s"
  by (simp_all add: confirm_dialog_called_def)

text \<open>The three ways \<open>closeTab\<close> completes when nothing runs during the wait.\<close>

lemma closeTab_Inr:
  assumes "closeTab confirmed tabId s = Inr s'"
  shows "(findIndex (\<lambda>t. tab_id t = tabId) (tabs s) = None \<and> s' = s)
       \<or> (\<exists>t. getTab tabId s = Some t \<and> isDirty t \<and> \<not> confirmed \<and> s' = confirm_dialog_called s)
       \<or> (\<exists>idx t. findIndex (\<lambda>t. tab_id t = tabId) (tabs s) = Some idx
             \<and> getTab tabId s = Some t \<and> (isDirty t \<longrightarrow> confirmed)
             \<and> s' = closeTab_finish (closeTab_remove idx tabId
                      (if isDirty t then confirm_dialog_called s else s)))"
proof (cases "findIndex (\<lambda>t. tab_id t = tabId) (tabs s)")
  case None
  with assms show ?thesis
    by (simp add: closeTab_def closeTab_with_def)
next
  case (Some idx)
  from findIndex_Some [OF Some] have idx: "idx < length (tabs s)"
    by simp
  with assms Some show ?thesis
    by (auto simp: closeTab_def closeTab_with_def closeTab_resume_def closeTab_after_def
        split: option.splits if_splits)
qed


lemma remove_nth_distinct:
  assumes "distinct (map f xs)" and "i < length xs"
  shows "distinct (map f (take i xs @ drop (Suc i) xs))
       \<and> (\<forall>t\<in>set (take i xs @ drop (Suc i) xs). f t \<noteq> f (xs ! i))"
proof -
  have "xs = take i xs @ xs ! i # drop (Suc i) xs"
    using assms(2) by (rule id_take_nth_drop)
  then have "distinct (map f (take i xs @ xs ! i # drop (Suc i) xs))"
    using assms(1) by simp
  then show ?thesis
    by (auto simp: image_iff)
qed


text \<open>A close of a tab that is not the active one leaves the active tab pointer alone.\<close>

lemma closeTab_remove_inactive:
  "activeTabId s \<noteq> tabId \<Longrightarrow> activeTabId (closeTab_remove idx tabId s) = activeTabId s"
  by (simp add: closeTab_remove_def Let_def)

lemma closeTab_after_nonempty:
  "closeTab_after idx tabId u = Inr s' \<Longrightarrow> tabs s' \<noteq> []"
  by (auto simp: closeTab_after_def closeTab_finish_nonempty split: if_splits)



section \<open>A new tab and its observer\<close>

lemma addTab_creates:
  assumes "\<not> truthy_path p \<or> List.find (\<lambda>t. path t = p) (tabs s) = None"
      and "\<forall>t\<in>set (tabs s). tab_id t \<noteq> nextTabId s"
  shows "getTab (nextTabId s) (addTab p txt s) =
           Some \<lparr>tab_id = nextTabId s, path = p,
                 model = createModel txt (languageFromPath (languages s) p),
                 viewState = None, isDirty = False\<rparr>"
proof -
  let ?n = "\<lparr>tab_id = nextTabId s, path = p,
             model = createModel txt (languageFromPath (languages s) p),
             viewState = None, isDirty = False\<rparr>"
  let ?s1 = "s\<lparr>nextTabId := nextTabId s + 1, tabs := tabs s @ [?n]\<rparr>"
  have a: "addTab p txt s = switchTab (nextTabId s) ?s1"
    using assms(1) by (auto simp: addTab_def Let_def)
  have f: "getTab (nextTabId s) ?s1 = Some ?n"
    using find_snoc_fresh [of "tabs s" "\<lambda>t. tab_id t = nextTabId s" ?n] assms(2)
    by (simp add: getTab_def)
  show ?thesis
    unfolding a getTab_switchTab using f
    by (cases "activeTabId s = nextTabId s") simp_all
qed

lemma onDidChangeContent_dirty:
  assumes "getTab i s = Some t" and "isDirty t"
  shows "onDidChangeContent i s = s"
  using assms by (simp add: onDidChangeContent_def)

lemma onDidChangeContent_clean:
  assumes "getTab i s = Some t" and "\<not> isDirty t"
  shows "getTab i (onDidChangeContent i s) = Some (t\<lparr>isDirty := True\<rparr>)
       \<and> renders (onDidChangeContent i s) = renders s + 1"
  using assms by (simp add: getTab_onDidChangeContent) (simp add: onDidChangeContent_def)

lemma onDidChangeContent_repeat:
  assumes "getTab i s = Some t" and "\<not> isDirty t"
  shows "(onDidChangeContent i ^^ Suc n) s = onDidChangeContent i s"
proof (induction n)
  case 0
  show ?case by simp
next
  case (Suc n)
  have "isDirty (t\<lparr>isDirty := True\<rparr>)"
    by simp
  with onDidChangeContent_clean [OF assms]
  have "onDidChangeContent i (onDidChangeContent i s) = onDidChangeContent i s"
    using onDidChangeContent_dirty by blast
  with Suc show ?case
    by simp
qed

section \<open>The editor after a switch\<close>

lemma editor_switchTab:
  "activeTabId s \<noteq> i \<Longrightarrow>
   editor (switchTab i s) =
     (case getTab i s of
        None \<Rightarrow> None
      | Some t \<Rightarrow>
          (case viewState t of
             None \<Rightarrow> (if map_option fst (editor s) = Some i then editor s else Some (i, initial_view))
           | Some w \<Rightarrow> Some (i, w)))"
proof -
  assume ne: "activeTabId s \<noteq> i"
  let ?s1 = "case getActiveTab s of None \<Rightarrow> s
             | Some c \<Rightarrow> s\<lparr>tabs := update_tab (tab_id c) (\<lambda>t. t\<lparr>viewState := saveViewState s\<rparr>) (tabs s)\<rparr>"
  have g: "getTab i ?s1 = getTab i s"
  proof (cases "getActiveTab s")
    case None
    then show ?thesis by simp
  next
    case (Some c)
    then have "tab_id c = activeTabId s"
      using getTab_in_tabs [of "activeTabId s" s c] by (simp add: getActiveTab_def)
    with Some ne show ?thesis
      by (simp add: getTab_def find_update_tab_other)
  qed
  have e: "editor ?s1 = editor s"
    by (simp split: option.splits)
  have "editor (switchTab i s) =
      (case getTab i ?s1 of
         None \<Rightarrow> editor (setModel None ?s1)
       | Some t \<Rightarrow> (case viewState t of
            None \<Rightarrow> editor (setModel (Some (tab_id t)) ?s1)
          | Some w \<Rightarrow> editor (restoreViewState w (setModel (Some (tab_id t)) ?s1))))"
    using ne
    by (simp add: switchTab_def Let_def getActiveTab_def getTab_def setModel_def
        restoreViewState_def focus_editor_def split: option.splits)
  then show ?thesis
    unfolding g using e
    by (auto simp: setModel_def restoreViewState_def split: option.splits dest: getTab_in_tabs)
qed

section \<open>The ids of the tabs\<close>

text \<open>
  The initial state has distinct ids below the counter, and opening, switching, closing
  (also the part of a close that runs after the wait for the host), saving and the change
  observer keep it so.
\<close>

lemma tabs_ok_ids:
  "tabs_ok s = (distinct (map tab_id (tabs s)) \<and> (\<forall>i\<in>set (map tab_id (tabs s)). i < nextTabId s))"
  by (auto simp: tabs_ok_def)

lemma tabs_ok_fresh:
  "tabs_ok s \<Longrightarrow> distinct (map tab_id (tabs s)) \<and> (\<forall>t\<in>set (tabs s). tab_id t \<noteq> nextTabId s)"
  by (auto simp: tabs_ok_def)

lemma tabs_ok_initial: "tabs_ok (initial_state host langs)"
  by (simp add: tabs_ok_def initial_state_def)

lemma tabs_ok_switchTab: "tabs_ok s \<Longrightarrow> tabs_ok (switchTab i s)"
  unfolding tabs_ok_ids by (simp add: switchTab_map)

lemma tabs_ok_renderTabs: "tabs_ok (renderTabs s) = tabs_ok s"
  by (simp add: tabs_ok_def)

lemma tabs_ok_addTab: "tabs_ok s \<Longrightarrow> tabs_ok (addTab p txt s)"
proof -
  assume ok: "tabs_ok s"
  let ?n = "\<lparr>tab_id = nextTabId s, path = p,
             model = createModel txt (languageFromPath (languages s) p),
             viewState = None, isDirty = False\<rparr>"
  have "tabs_ok (s\<lparr>nextTabId := nextTabId s + 1, tabs := tabs s @ [?n]\<rparr>)"
    using ok by (fastforce simp: tabs_ok_def)
  with ok show ?thesis
    by (auto simp: addTab_def Let_def intro: tabs_ok_switchTab split: option.splits)
qed

lemma tabs_ok_same_ids:
  "map tab_id (tabs s') = map tab_id (tabs s) \<Longrightarrow> nextTabId s' = nextTabId s \<Longrightarrow>
   tabs_ok s' = tabs_ok s"
  by (simp only: tabs_ok_ids)

lemma tabs_ok_onDidChangeContent: "tabs_ok s \<Longrightarrow> tabs_ok (onDidChangeContent i s)"
proof -
  have "map tab_id (update_tab i (\<lambda>t. t\<lparr>isDirty := True\<rparr>) (tabs s)) = map tab_id (tabs s)"
    by (rule map_update_tab) simp
  moreover have "nextTabId (onDidChangeContent i s) = nextTabId s"
    by (simp add: onDidChangeContent_def split: option.splits)
  ultimately show "tabs_ok s \<Longrightarrow> tabs_ok (onDidChangeContent i s)"
    using tabs_ok_same_ids [of "onDidChangeContent i s" s]
    by (simp add: onDidChangeContent_tabs)
qed

lemma tabs_ok_closeTab_remove:
  assumes "tabs_ok s" and "idx < length (tabs s)"
  shows "tabs_ok (closeTab_remove idx tabId s)"
proof -
  let ?rest = "take idx (tabs s) @ drop (Suc idx) (tabs s)"
  have "distinct (map tab_id ?rest)"
    using remove_nth_distinct [of tab_id "tabs s" idx] assms by (simp add: tabs_ok_def)
  moreover have "\<forall>t\<in>set ?rest. tab_id t < nextTabId s"
    using assms(1) by (auto simp: tabs_ok_def dest: in_set_takeD in_set_dropD)
  ultimately have "tabs_ok (dispose (tab_id (tabs s ! idx)) (s\<lparr>tabs := ?rest\<rparr>))"
    by (simp add: tabs_ok_def)
  then show ?thesis
    by (simp add: closeTab_remove_def Let_def tabs_ok_switchTab)
qed

lemma tabs_ok_closeTab:
  assumes "tabs_ok s" and "closeTab confirmed tabId s = Inr s'"
  shows "tabs_ok s'"
proof -
  have c: "tabs_ok (confirm_dialog_called s)"
    using assms(1) by (simp add: tabs_ok_def)
  have f: "tabs_ok m \<Longrightarrow> tabs_ok (closeTab_finish m)" for m
    by (simp add: closeTab_finish_def tabs_ok_addTab tabs_ok_renderTabs)
  from closeTab_Inr [OF assms(2)] show ?thesis
  proof (elim disjE exE conjE)
    fix idx t
    assume i: "findIndex (\<lambda>t. tab_id t = tabId) (tabs s) = Some idx"
      and s': "s' = closeTab_finish (closeTab_remove idx tabId
                      (if isDirty t then confirm_dialog_called s else s))"
    have "idx < length (tabs s)"
      using findIndex_Some [OF i] by simp
    then show ?thesis
      unfolding s' using assms(1) c by (auto intro!: f tabs_ok_closeTab_remove)
  qed (use assms(1) c in simp_all)
qed

lemma tabs_ok_closeTab_resume:
  assumes "tabs_ok u" and "closeTab_resume confirmed idx tabId u = Inr s'"
  shows "tabs_ok s'"
proof (cases "confirmed \<and> idx < length (tabs u)")
  case True
  then have "s' = closeTab_finish (closeTab_remove idx tabId u)"
    using assms(2) by (simp add: closeTab_resume_def closeTab_after_def)
  moreover have "tabs_ok (closeTab_remove idx tabId u)"
    using assms(1) True by (simp add: tabs_ok_closeTab_remove)
  ultimately show ?thesis
    by (simp add: closeTab_finish_def tabs_ok_addTab tabs_ok_renderTabs)
next
  case False
  with assms show ?thesis
    by (auto simp: closeTab_resume_def closeTab_after_def split: if_splits)
qed

lemma tabs_ok_doSave:
  assumes "tabs_ok s" and "doSave res s = Inr s'"
  shows "tabs_ok s'"
proof -
  have u: "map tab_id (update_tab i (\<lambda>t. t\<lparr>path := q, isDirty := False, model := m t\<rparr>) ts)
         = map tab_id ts" for i q m ts
    by (rule map_update_tab) simp
  have "map tab_id (tabs s') = map tab_id (tabs s) \<and> nextTabId s' = nextTabId s"
    using assms(2)
    by (auto simp: doSave_def Let_def u split: option.splits if_splits)
  with assms(1) tabs_ok_same_ids [of s' s] show ?thesis
    by simp
qed

section \<open>The sample states, evaluated\<close>

lemmas run_defs =
  initial_state_def full_host_def has_api_def getTab_def getActiveTab_def after_last_def
  languageFromPath_def tab_name_def renderTabs_def saveViewState_def setModel_def
  restoreViewState_def focus_editor_def dispose_def switchTab_def createModel_def addTab_def
  onDidChangeContent_def closeTab_remove_def closeTab_finish_def confirm_dialog_called_def
  closeTab_after_def closeTab_resume_def closeTab_with_def closeTab_def close_a_def
  setModelLanguage_def doSave_def cancelSurgicalReplace_def report_error_def
  pushEditOperations_def revealRangeInCenter_def surgical_try_def applySurgicalReplace_def
  nth_opt_def initial_view_def sample_runtime_def Let_def

lemma one_tab_eq:
  "one_tab =
     \<lparr>tabs = [\<lparr>tab_id = 0, path = Some ''a.txt'',
                model = \<lparr>buffer = ''hello'', language = ''plaintext''\<rparr>,
                viewState = None, isDirty = False\<rparr>],
      nextTabId = 1, activeTabId = 0, editor = Some (0, ViewState 0 1 1),
      editor_focus_calls = 1, modal_hidden = True, surg_text = [],
      tab_bar = [(''a.txt'', True, False)], renders = 1, status_filepath = ''a.txt'',
      pywebview = Some full_host,
      host_calls = [SetActiveTab (Some ''a.txt'') False], alerts = [],
      pushed_edits = [], revealed = [],
      languages = [(''python'', Some [''.py''])]\<rparr>"
  unfolding one_tab_def by (simp add: run_defs)

lemma two_tabs_eq:
  "two_tabs =
     \<lparr>tabs = [\<lparr>tab_id = 0, path = Some ''a.txt'',
                model = \<lparr>buffer = ''hello'', language = ''plaintext''\<rparr>,
                viewState = Some (ViewState 0 1 1), isDirty = False\<rparr>,
              \<lparr>tab_id = 1, path = Some ''b.txt'',
                model = \<lparr>buffer = ''world'', language = ''plaintext''\<rparr>,
                viewState = None, isDirty = False\<rparr>],
      nextTabId = 2, activeTabId = 1, editor = Some (1, ViewState 0 1 1),
      editor_focus_calls = 2, modal_hidden = True, surg_text = [],
      tab_bar = [(''a.txt'', False, False), (''b.txt'', True, False)], renders = 2,
      status_filepath = ''b.txt'', pywebview = Some full_host,
      host_calls = [SetActiveTab (Some ''a.txt'') False, SetActiveTab (Some ''b.txt'') False],
      alerts = [], pushed_edits = [], revealed = [],
      languages = [(''python'', Some [''.py''])]\<rparr>"
  unfolding two_tabs_def one_tab_eq by (simp add: run_defs)

lemma edited_tab_eq:
  "edited_tab =
     \<lparr>tabs = [\<lparr>tab_id = 0, path = Some ''a.txt'',
                model = \<lparr>buffer = ''hello'', language = ''plaintext''\<rparr>,
                viewState = None, isDirty = True\<rparr>],
      nextTabId = 1, activeTabId = 0, editor = Some (0, ViewState 0 1 1),
      editor_focus_calls = 1, modal_hidden = True, surg_text = [],
      tab_bar = [(''a.txt'', True, True)], renders = 2, status_filepath = ''a.txt'',
      pywebview = Some full_host,
      host_calls = [SetActiveTab (Some ''a.txt'') False, SetActiveTab (Some ''a.txt'') True],
      alerts = [], pushed_edits = [], revealed = [],
      languages = [(''python'', Some [''.py''])]\<rparr>"
  unfolding edited_tab_def one_tab_eq by (simp add: run_defs)

lemma ten_chars_eq:
  "ten_chars input =
     \<lparr>tabs = [\<lparr>tab_id = 0, path = Some ''t.txt'',
                model = \<lparr>buffer = ''0123456789'', language = ''plaintext''\<rparr>,
                viewState = None, isDirty = False\<rparr>],
      nextTabId = 1, activeTabId = 0, editor = Some (0, ViewState 0 1 1),
      editor_focus_calls = 1, modal_hidden = False, surg_text = input,
      tab_bar = [(''t.txt'', True, False)], renders = 1, status_filepath = ''t.txt'',
      pywebview = Some full_host,
      host_calls = [SetActiveTab (Some ''t.txt'') False], alerts = [],
      pushed_edits = [], revealed = [],
      languages = [(''python'', Some [''.py''])]\<rparr>"
  unfolding ten_chars_def by (simp add: run_defs)



section \<open>The surgical replace dialog\<close>

text \<open>
  C1. Applying the dialog on a text that parses, to a value that lacks one of
  \<open>start_line\<close>, \<open>end_line\<close>, \<open>replacement_code\<close> or has it \<open>null\<close>, shows an error
  (the host's alert when the host has one, the browser's otherwise) and changes nothing
  else: no tab and no model changes, no edit is pushed, the dialog stays as it was and
  the editor is not focused, so the cancel routine has not run. A value that is itself
  \<open>null\<close> lacks all three; reading its first property throws, and the same \<open>catch\<close> block
  reports it.
\<close>

theorem C1_missing_required_field:
  assumes "surg_text s \<noteq> []"
      and "JSON_parse rt (surg_text s) = Inr data"
      and "(\<forall>v. get_prop data ''start_line'' = Inr v \<longrightarrow> nullish v)
         \<or> (\<forall>v. get_prop data ''end_line'' = Inr v \<longrightarrow> nullish v)
         \<or> (\<forall>v. get_prop data ''replacement_code'' = Inr v \<longrightarrow> nullish v)"
  shows "let e = (case get_prop data ''start_line'' of
                    Inl e \<Rightarrow> e
                  | Inr v \<Rightarrow> Error ''Missing required fields in JSON: start_line, end_line, replacement_code'');
             msg = ''Could not apply changes. Please ensure the text is valid JSON and matches the required schema.''
                   @ [CHR 0x0A, CHR 0x0A] @ message e;
             s' = applySurgicalReplace rt s
         in s' = report_error e s
          \<and> (if has_api has_create_alert s
              then host_calls s' = host_calls s @ [CreateAlert ''JSON Parse Error'' msg]
                 \<and> alerts s' = alerts s
              else alerts s' = alerts s @ [msg] \<and> host_calls s' = host_calls s)
          \<and> tabs s' = tabs s
          \<and> pushed_edits s' = pushed_edits s
          \<and> modal_hidden s' = modal_hidden s
          \<and> editor_focus_calls s' = editor_focus_calls s
          \<and> editor s' = editor s"
proof -
  let ?e = "case get_prop data ''start_line'' of
              Inl e \<Rightarrow> e
            | Inr v \<Rightarrow> Error ''Missing required fields in JSON: start_line, end_line, replacement_code''"
  from surgical_try_missing [OF assms(2,3)] assms(1)
  have "applySurgicalReplace rt s = report_error ?e s"
    by (simp add: applySurgicalReplace_def)
  then show ?thesis
    by (simp add: Let_def report_error_def)
qed

theorem C1_witness:
  "surg_text (ten_chars ''{}'') \<noteq> []
   \<and> JSON_parse (sample_runtime (JObj [])) (surg_text (ten_chars ''{}'')) = Inr (JObj [])
   \<and> get_prop (JObj []) ''replacement_code'' = Inr Undefined \<and> nullish Undefined
   \<and> host_calls (applySurgicalReplace (sample_runtime (JObj [])) (ten_chars ''{}'')) =
       host_calls (ten_chars ''{}'') @
         [CreateAlert ''JSON Parse Error''
            (''Could not apply changes. Please ensure the text is valid JSON and matches the required schema.''
             @ [CHR 0x0A, CHR 0x0A]
             @ ''Missing required fields in JSON: start_line, end_line, replacement_code'')]
   \<and> tabs (applySurgicalReplace (sample_runtime (JObj [])) (ten_chars ''{}'')) = tabs (ten_chars ''{}'')
   \<and> pushed_edits (applySurgicalReplace (sample_runtime (JObj [])) (ten_chars ''{}'')) = []
   \<and> \<not> modal_hidden (applySurgicalReplace (sample_runtime (JObj [])) (ten_chars ''{}''))"
proof -
  have h1: "surg_text (ten_chars ''{}'') \<noteq> []"
    by (simp add: ten_chars_def)
  have h2: "JSON_parse (sample_runtime (JObj [])) (surg_text (ten_chars ''{}'')) = Inr (JObj [])"
    by (simp add: sample_runtime_def)
  have h3: "(\<forall>v. get_prop (JObj []) ''start_line'' = Inr v \<longrightarrow> nullish v)
          \<or> (\<forall>v. get_prop (JObj []) ''end_line'' = Inr v \<longrightarrow> nullish v)
          \<or> (\<forall>v. get_prop (JObj []) ''replacement_code'' = Inr v \<longrightarrow> nullish v)"
    by simp
  have a: "has_api has_create_alert (ten_chars ''{}'')" "pushed_edits (ten_chars ''{}'') = []"
    "\<not> modal_hidden (ten_chars ''{}'')"
    by (simp_all add: ten_chars_def run_defs)
  from C1_missing_required_field [OF h1 h2 h3] h1 h2 a show ?thesis
    by (simp add: Let_def report_error_def)
qed

text \<open>
  C2. When an edit is applied, a start column that is absent or falsy resolves to
  column 1 and an end column that is absent or falsy resolves to the maximum column the
  model reports for the end line. The range pushed and revealed has exactly these four
  coordinates, so with the end column left out the range ends where the widget puts the
  end of the line, whatever the line's length: for a line of ten characters the range
  runs through the tenth. The model's text is then what the widget makes of that edit.
\<close>

theorem C2_column_defaults:
  assumes "surg_text s \<noteq> []"
      and "JSON_parse rt (surg_text s) = Inr data"
      and "get_prop data ''start_line'' = Inr sline"
      and "get_prop data ''end_line'' = Inr eline"
      and "get_prop data ''start_column'' = Inr scol"
      and "get_prop data ''end_column'' = Inr ecol"
      and "get_prop data ''replacement_code'' = Inr txt"
      and "\<not> nullish sline" and "\<not> nullish eline" and "\<not> nullish txt"
      and "getActiveTab s = Some tab"
      and "\<not> truthy ecol \<longrightarrow> getLineMaxColumn rt (buffer (model tab)) eline = Inr maxcol"
      and "applyEdits rt (buffer (model tab))
             \<lparr>op_range = MonacoRange sline (if truthy scol then scol else JNum 1)
                                       eline (if truthy ecol then ecol else maxcol),
              op_text = txt\<rparr> = Inr (new_text, changed)"
  shows "pushed_edits (applySurgicalReplace rt s) =
           pushed_edits s @
             [(tab_id tab,
               \<lparr>op_range = MonacoRange sline (if truthy scol then scol else JNum 1)
                                         eline (if truthy ecol then ecol else maxcol),
                op_text = txt\<rparr>)]
       \<and> revealed (applySurgicalReplace rt s) =
           revealed s @ [MonacoRange sline (if truthy scol then scol else JNum 1)
                                     eline (if truthy ecol then ecol else maxcol)]
       \<and> map_option (\<lambda>t. buffer (model t)) (getTab (tab_id tab) (applySurgicalReplace rt s))
           = Some new_text
       \<and> alerts (applySurgicalReplace rt s) = alerts s
       \<and> modal_hidden (applySurgicalReplace rt s)"
proof -
  let ?r = "MonacoRange sline (if truthy scol then scol else JNum 1)
                        eline (if truthy ecol then ecol else maxcol)"
  let ?ed = "\<lparr>op_range = ?r, op_text = txt\<rparr>"
  have tab: "getTab (tab_id tab) s = Some tab"
    using assms(11) getTab_in_tabs [of "activeTabId s" s tab] by (simp add: getActiveTab_def)
  from pushEditOperations_ok [OF assms(13) tab] obtain s1 where
    s1: "pushEditOperations rt tab ?ed s = Inr s1"
        "pushed_edits s1 = pushed_edits s @ [(tab_id tab, ?ed)]"
        "revealed s1 = revealed s" "alerts s1 = alerts s"
        "map_option (\<lambda>t. buffer (model t)) (getTab (tab_id tab) s1) = Some new_text"
    by blast
  have "surgical_try rt s = Inr (cancelSurgicalReplace (revealRangeInCenter rt ?r s1))"
    using assms(2-12) s1(1)
    by (cases "truthy scol"; cases "truthy ecol") (simp_all add: surgical_try_def Let_def)
  with assms(1) have "applySurgicalReplace rt s = cancelSurgicalReplace (revealRangeInCenter rt ?r s1)"
    by (simp add: applySurgicalReplace_def)
  with s1 show ?thesis
    by (simp add: getTab_def)
qed

theorem C2_witness:
  "surg_text (ten_chars ''{...}'') \<noteq> []
   \<and> get_prop sample_edit ''end_column'' = Inr Undefined
   \<and> getActiveTab (ten_chars ''{...}'') = Some (hd (tabs (ten_chars ''{...}'')))
   \<and> length (buffer (model (hd (tabs (ten_chars ''{...}''))))) = 10
   \<and> getLineMaxColumn (sample_runtime sample_edit) ''0123456789'' (JNum 1) = Inr (JNum 11)
   \<and> pushed_edits (applySurgicalReplace (sample_runtime sample_edit) (ten_chars ''{...}'')) =
       [(0, \<lparr>op_range = MonacoRange (JNum 1) (JNum 4) (JNum 1) (JNum 11), op_text = JStr ''X''\<rparr>)]
   \<and> map_option (\<lambda>t. buffer (model t))
         (getTab 0 (applySurgicalReplace (sample_runtime sample_edit) (ten_chars ''{...}'')))
       = Some ''012X''"
proof -
  let ?s = "ten_chars ''{...}''" and ?rt = "sample_runtime sample_edit"
  let ?tab = "hd (tabs ?s)"
  have h1: "surg_text ?s \<noteq> []"
    by (simp add: ten_chars_eq)
  have h2: "JSON_parse ?rt (surg_text ?s) = Inr sample_edit"
    by (simp add: sample_runtime_def)
  have h3: "get_prop sample_edit ''start_line'' = Inr (JNum 1)"
   and h4: "get_prop sample_edit ''end_line'' = Inr (JNum 1)"
   and h5: "get_prop sample_edit ''start_column'' = Inr (JNum 4)"
   and h6: "get_prop sample_edit ''end_column'' = Inr Undefined"
   and h7: "get_prop sample_edit ''replacement_code'' = Inr (JStr ''X'')"
    by (simp_all add: sample_edit_def)
  have h8: "\<not> nullish (JNum 1)" and h10: "\<not> nullish (JStr ''X'')"
    by simp_all
  have h11: "getActiveTab ?s = Some ?tab"
    by (simp add: ten_chars_eq getActiveTab_def getTab_def)
  have b: "buffer (model ?tab) = ''0123456789''" and i: "tab_id ?tab = 0"
    by (simp_all add: ten_chars_eq)
  have m: "getLineMaxColumn ?rt ''0123456789'' (JNum 1) = Inr (JNum 11)"
    by (simp add: sample_runtime_def)
  have h12: "\<not> truthy Undefined \<longrightarrow> getLineMaxColumn ?rt (buffer (model ?tab)) (JNum 1) = Inr (JNum 11)"
    using m b by simp
  have h13: "applyEdits ?rt (buffer (model ?tab))
               \<lparr>op_range = MonacoRange (JNum 1) (if truthy (JNum 4) then JNum 4 else JNum 1)
                                        (JNum 1) (if truthy Undefined then Undefined else JNum 11),
                op_text = JStr ''X''\<rparr> = Inr (''012X'', True)"
    by (simp add: b sample_runtime_def)
  from C2_column_defaults [OF h1 h2 h3 h4 h5 h6 h7 h8 h8 h10 h11 h12 h13] h1 h6 h11 b i m
  show ?thesis
    by (simp add: ten_chars_eq)
qed

text \<open>
  C10. Applying the dialog with an empty input field is cancelling: the dialog is
  hidden, the editor is focused, no error is shown, and no tab, model or edit log
  changes. The parser and the check of the required fields are not reached.
\<close>

theorem C10_empty_input_is_cancel:
  assumes "surg_text s = []"
  shows "applySurgicalReplace rt s = cancelSurgicalReplace s
       \<and> modal_hidden (applySurgicalReplace rt s)
       \<and> editor_focus_calls (applySurgicalReplace rt s) = editor_focus_calls s + 1
       \<and> alerts (applySurgicalReplace rt s) = alerts s
       \<and> host_calls (applySurgicalReplace rt s) = host_calls s
       \<and> tabs (applySurgicalReplace rt s) = tabs s
       \<and> pushed_edits (applySurgicalReplace rt s) = pushed_edits s"
  using assms by (simp add: applySurgicalReplace_def cancelSurgicalReplace_def focus_editor_def)

theorem C10_witness:
  "surg_text (ten_chars []) = []
   \<and> applySurgicalReplace (sample_runtime JNull) (ten_chars []) = cancelSurgicalReplace (ten_chars [])
   \<and> \<not> modal_hidden (ten_chars [])
   \<and> modal_hidden (applySurgicalReplace (sample_runtime JNull) (ten_chars []))
   \<and> alerts (applySurgicalReplace (sample_runtime JNull) (ten_chars [])) = []
   \<and> pushed_edits (applySurgicalReplace (sample_runtime JNull) (ten_chars [])) = []"
proof -
  have h: "surg_text (ten_chars []) = []"
    by (simp add: ten_chars_def)
  have a: "alerts (ten_chars []) = []" "pushed_edits (ten_chars []) = []"
    "\<not> modal_hidden (ten_chars [])"
    by (simp_all add: ten_chars_def run_defs)
  from C10_empty_input_is_cancel [OF h, of "sample_runtime JNull"] h a show ?thesis
    by (simp add: cancelSurgicalReplace_def focus_editor_def)
qed

section \<open>Opening, switching and closing tabs\<close>

text \<open>
  C3, as the code has it. \<open>addTab\<close> looks for an existing tab only when the path is
  truthy, so the empty string, which is not \<open>null\<close>, never deduplicates: opening it
  twice gives two tabs.
\<close>

theorem C3_counterexample:
  "path (hd (tabs empty_path_tab)) = Some []
   \<and> length (tabs empty_path_tab) = 1
   \<and> length (tabs (addTab (Some []) ''y'' empty_path_tab)) = 2"
  by (simp add: empty_path_tab_def run_defs)

text \<open>
  C3, amended. For a path that is a non-empty string and that some tab already has,
  \<open>addTab\<close> is a switch to the first tab with that path: no tab is added, and the tabs
  keep their order, ids, paths, models and dirty flags (the switch stores the view state
  of the tab it leaves, as every switch does); the counter of ids does not move. For the
  path \<open>null\<close> a new tab is always appended.
\<close>

theorem C3_existing_path_switches:
  assumes "p \<noteq> []" and "t \<in> set (tabs s)" and "path t = Some p"
  shows "(\<exists>existing. List.find (\<lambda>t. path t = Some p) (tabs s) = Some existing
            \<and> path existing = Some p
            \<and> addTab (Some p) txt s = switchTab (tab_id existing) s
            \<and> activeTabId (addTab (Some p) txt s) = tab_id existing)
       \<and> length (tabs (addTab (Some p) txt s)) = length (tabs s)
       \<and> map tab_id (tabs (addTab (Some p) txt s)) = map tab_id (tabs s)
       \<and> map path (tabs (addTab (Some p) txt s)) = map path (tabs s)
       \<and> map model (tabs (addTab (Some p) txt s)) = map model (tabs s)
       \<and> map isDirty (tabs (addTab (Some p) txt s)) = map isDirty (tabs s)
       \<and> nextTabId (addTab (Some p) txt s) = nextTabId s
       \<and> length (tabs (addTab None txt s)) = length (tabs s) + 1
       \<and> last (tabs (addTab None txt s)) =
           \<lparr>tab_id = nextTabId s, path = None, model = createModel txt ''plaintext'',
            viewState = None, isDirty = False\<rparr>"
proof -
  from find_exists [of t "tabs s" "\<lambda>t. path t = Some p"] assms(2,3)
  obtain existing where e: "List.find (\<lambda>t. path t = Some p) (tabs s) = Some existing"
      "path existing = Some p"
    by blast
  with assms(1) have a: "addTab (Some p) txt s = switchTab (tab_id existing) s"
    by (simp add: addTab_def)
  have n: "length (tabs (addTab None txt s)) = length (tabs s) + 1
       \<and> last (tabs (addTab None txt s)) =
           \<lparr>tab_id = nextTabId s, path = None, model = createModel txt ''plaintext'',
            viewState = None, isDirty = False\<rparr>"
    using addTab_new [of None _ s] by simp
  show ?thesis
    using e n unfolding a by (simp add: switchTab_map)
qed

theorem C3_witness:
  "''a.txt'' \<noteq> [] \<and> hd (tabs two_tabs) \<in> set (tabs two_tabs)
   \<and> path (hd (tabs two_tabs)) = Some ''a.txt''
   \<and> length (tabs (addTab (Some ''a.txt'') ''zzz'' two_tabs)) = 2
   \<and> map model (tabs (addTab (Some ''a.txt'') ''zzz'' two_tabs)) =
       [\<lparr>buffer = ''hello'', language = ''plaintext''\<rparr>,
        \<lparr>buffer = ''world'', language = ''plaintext''\<rparr>]
   \<and> activeTabId two_tabs = 1
   \<and> activeTabId (addTab (Some ''a.txt'') ''zzz'' two_tabs) = 0
   \<and> length (tabs (addTab None ''zzz'' two_tabs)) = 3"
proof -
  have h1: "''a.txt'' \<noteq> []"
    by simp
  have h2: "hd (tabs two_tabs) \<in> set (tabs two_tabs)"
    by (simp add: two_tabs_eq)
  have h3: "path (hd (tabs two_tabs)) = Some ''a.txt''"
    by (simp add: two_tabs_eq)
  have f: "List.find (\<lambda>t. path t = Some ''a.txt'') (tabs two_tabs) = Some (hd (tabs two_tabs))"
    by (simp add: two_tabs_eq)
  have a: "activeTabId two_tabs = 1" "tab_id (hd (tabs two_tabs)) = 0"
    "length (tabs two_tabs) = 2"
    "map model (tabs two_tabs) =
       [\<lparr>buffer = ''hello'', language = ''plaintext''\<rparr>,
        \<lparr>buffer = ''world'', language = ''plaintext''\<rparr>]"
    by (simp_all add: two_tabs_eq)
  from C3_existing_path_switches [OF h1 h2 h3, of "''zzz''"] h1 h2 h3 f a show ?thesis
    by auto
qed

text \<open>
  C4. A \<open>closeTab\<close> that completes on a state with at least one tab leaves at least one
  tab. From a single tab it leaves exactly one: the same tab when the id is not that
  tab's or the host's confirmation is declined, and otherwise a fresh tab with no path,
  empty text, no view state and a clean flag, which is the active one.
\<close>

theorem C4_close_leaves_a_tab:
  assumes "tabs s \<noteq> []" and "closeTab confirmed tabId s = Inr s'"
  shows "tabs s' \<noteq> []
       \<and> (length (tabs s) = 1 \<longrightarrow> length (tabs s') = 1)
       \<and> (length (tabs s) = 1 \<and> (\<exists>t. getTab tabId s = Some t \<and> (isDirty t \<longrightarrow> confirmed)) \<longrightarrow>
            tabs s' = [\<lparr>tab_id = nextTabId s, path = None, model = createModel [] ''plaintext'',
                        viewState = None, isDirty = False\<rparr>]
            \<and> activeTabId s' = nextTabId s)"
proof -
  from closeTab_Inr [OF assms(2)]
  consider (absent) "findIndex (\<lambda>t. tab_id t = tabId) (tabs s) = None" "s' = s"
    | (declined) t where "getTab tabId s = Some t" "isDirty t" "\<not> confirmed"
        "s' = confirm_dialog_called s"
    | (closed) idx t where "findIndex (\<lambda>t. tab_id t = tabId) (tabs s) = Some idx"
        "getTab tabId s = Some t" "isDirty t \<longrightarrow> confirmed"
        "s' = closeTab_finish (closeTab_remove idx tabId
                (if isDirty t then confirm_dialog_called s else s))"
    by (elim disjE exE conjE) blast+
  then show ?thesis
  proof cases
    case absent
    then have "getTab tabId s = None"
      by (simp add: getTab_def findIndex_None find_None_iff)
    with absent assms(1) show ?thesis
      by simp
  next
    case declined
    with assms(1) show ?thesis by auto
  next
    case closed
    let ?s0 = "if isDirty t then confirm_dialog_called s else s"
    let ?mid = "closeTab_remove idx tabId ?s0"
    have idx: "idx < length (tabs ?s0)"
      using findIndex_Some [OF closed(1)] by simp
    have len: "length (tabs ?mid) = length (tabs s) - 1"
      using closeTab_remove_length [OF idx] by simp
    have ne: "tabs s' \<noteq> []"
      unfolding closed(4) by (rule closeTab_finish_nonempty)
    have one: "length (tabs s) = 1 \<Longrightarrow> tabs ?mid = []"
      using len by simp
    have nx: "nextTabId ?mid = nextTabId s"
      by simp
    show ?thesis
      using ne one closeTab_finish_empty [of ?mid] nx unfolding closed(4)
      by (auto simp del: closeTab_remove_nextTabId)
  qed
qed

theorem C4_witness:
  "tabs edited_tab \<noteq> [] \<and> length (tabs edited_tab) = 1
   \<and> getTab 0 edited_tab = Some (hd (tabs edited_tab))
   \<and> closeTab True 0 edited_tab =
       Inr (closeTab_finish (closeTab_remove 0 0 (confirm_dialog_called edited_tab)))
   \<and> tabs (closeTab_finish (closeTab_remove 0 0 (confirm_dialog_called edited_tab))) =
       [\<lparr>tab_id = 1, path = None, model = \<lparr>buffer = [], language = ''plaintext''\<rparr>,
         viewState = None, isDirty = False\<rparr>]
   \<and> activeTabId (closeTab_finish (closeTab_remove 0 0 (confirm_dialog_called edited_tab))) = 1"
proof -
  have h1: "tabs edited_tab \<noteq> []" and l: "length (tabs edited_tab) = 1"
    and n: "nextTabId edited_tab = 1"
    by (simp_all add: edited_tab_eq)
  have g: "getTab 0 edited_tab = Some (hd (tabs edited_tab))"
    by (simp add: edited_tab_eq getTab_def)
  have h2: "closeTab True 0 edited_tab =
      Inr (closeTab_finish (closeTab_remove 0 0 (confirm_dialog_called edited_tab)))"
    by (simp add: closeTab_def closeTab_with_def closeTab_resume_def closeTab_after_def
        getTab_def has_api_def full_host_def confirm_dialog_called_def edited_tab_eq)
  from C4_close_leaves_a_tab [OF h1 h2] h1 l n g h2 show ?thesis
    by (simp add: createModel_def)
qed



text \<open>
  C6. Closing a dirty tab when the host's confirmation answers false has no side effect
  on the tabs: the call returns after the dialog, with the tab list, the active tab
  pointer, the editor, the tab's model and its dirty flag as they were. Only the request
  to the host is on record.
\<close>

theorem C6_declined_close_no_side_effects:
  assumes "getTab tabId s = Some t" and "isDirty t" and "has_api has_confirm_dialog s"
  shows "closeTab False tabId s = Inr (confirm_dialog_called s)
       \<and> tabs (confirm_dialog_called s) = tabs s
       \<and> activeTabId (confirm_dialog_called s) = activeTabId s
       \<and> nextTabId (confirm_dialog_called s) = nextTabId s
       \<and> editor (confirm_dialog_called s) = editor s
       \<and> getTab tabId (confirm_dialog_called s) = Some t
       \<and> renders (confirm_dialog_called s) = renders s
       \<and> alerts (confirm_dialog_called s) = alerts s"
proof -
  from assms(1) obtain i where "findIndex (\<lambda>u. tab_id u = tabId) (tabs s) = Some i"
    using find_findIndex unfolding getTab_def by fastforce
  with assms show ?thesis
    by (simp add: closeTab_def closeTab_with_def closeTab_resume_def getTab_def
        confirm_dialog_called_def)
qed

theorem C6_witness:
  "getTab 0 edited_tab = Some (hd (tabs edited_tab)) \<and> isDirty (hd (tabs edited_tab))
   \<and> has_api has_confirm_dialog edited_tab
   \<and> closeTab False 0 edited_tab = Inr (confirm_dialog_called edited_tab)
   \<and> tabs (confirm_dialog_called edited_tab) = tabs edited_tab
   \<and> activeTabId (confirm_dialog_called edited_tab) = 0"
proof -
  have h1: "getTab 0 edited_tab = Some (hd (tabs edited_tab))"
    by (simp add: edited_tab_eq getTab_def)
  have h2: "isDirty (hd (tabs edited_tab))"
    by (simp add: edited_tab_eq)
  have h3: "has_api has_confirm_dialog edited_tab"
    by (simp add: edited_tab_eq has_api_def full_host_def)
  have h4: "activeTabId edited_tab = 0"
    by (simp add: edited_tab_eq)
  from C6_declined_close_no_side_effects [OF h1 h2 h3] h1 h2 h3 h4 show ?thesis
    by simp
qed

text \<open>
  C7. A tab that \<open>addTab\<close> creates (the path is falsy or no tab has it) gets the id
  \<open>nextTabId\<close>, which no tab has yet (as in every \<open>tabs_ok\<close> state), and starts
  clean. After any number \<open>n + 1\<close> of content changes it is dirty, and the observer
  has rendered the tab bar once in all.
  In any later state too: a change on the tab while it is clean sets its flag and
  renders once; a change while it is dirty leaves the whole state as it is, so nothing
  is rendered.
\<close>

theorem C7_dirty_once:
  assumes "\<not> truthy_path p \<or> List.find (\<lambda>t. path t = p) (tabs s) = None"
      and "\<forall>t\<in>set (tabs s). tab_id t \<noteq> nextTabId s"
  shows "(\<exists>t. getTab (nextTabId s) (addTab p txt s) = Some t \<and> \<not> isDirty t)
       \<and> (\<forall>n. \<exists>t. getTab (nextTabId s) ((onDidChangeContent (nextTabId s) ^^ Suc n) (addTab p txt s)) = Some t
              \<and> isDirty t)
       \<and> (\<forall>n. renders ((onDidChangeContent (nextTabId s) ^^ Suc n) (addTab p txt s))
              = renders (addTab p txt s) + 1)
       \<and> (\<forall>u t. getTab (nextTabId s) u = Some t \<and> \<not> isDirty t \<longrightarrow>
              getTab (nextTabId s) (onDidChangeContent (nextTabId s) u) = Some (t\<lparr>isDirty := True\<rparr>)
            \<and> renders (onDidChangeContent (nextTabId s) u) = renders u + 1)
       \<and> (\<forall>u t. getTab (nextTabId s) u = Some t \<and> isDirty t \<longrightarrow>
              onDidChangeContent (nextTabId s) u = u)"
proof -
  let ?i = "nextTabId s"
  let ?n = "\<lparr>tab_id = nextTabId s, path = p,
             model = createModel txt (languageFromPath (languages s) p),
             viewState = None, isDirty = False\<rparr>"
  have c: "getTab ?i (addTab p txt s) = Some ?n" and cl: "\<not> isDirty ?n"
    using addTab_creates [OF assms] by simp_all
  have r: "(onDidChangeContent ?i ^^ Suc n) (addTab p txt s) = onDidChangeContent ?i (addTab p txt s)" for n
    using onDidChangeContent_repeat [OF c cl] .
  show ?thesis
    using c onDidChangeContent_clean [OF c cl] onDidChangeContent_clean onDidChangeContent_dirty
    unfolding r by auto
qed

theorem C7_witness:
  "tabs (initial_state (Some full_host) [(''python'', Some [''.py''])]) = []
   \<and> nextTabId (initial_state (Some full_host) [(''python'', Some [''.py''])]) = 0
   \<and> map_option isDirty (getTab 0 one_tab) = Some False
   \<and> map_option isDirty (getTab 0 ((onDidChangeContent 0 ^^ Suc 2) one_tab)) = Some True
   \<and> renders ((onDidChangeContent 0 ^^ Suc 2) one_tab) = renders one_tab + 1"
proof -
  let ?s = "initial_state (Some full_host) [(''python'', Some [''.py''])]"
  have e: "tabs ?s = []" and n: "nextTabId ?s = 0"
    by (simp_all add: initial_state_def)
  have h1: "\<not> truthy_path (Some ''a.txt'') \<or> List.find (\<lambda>t. path t = Some ''a.txt'') (tabs ?s) = None"
    by (simp add: e)
  have h2: "\<forall>t\<in>set (tabs ?s). tab_id t \<noteq> nextTabId ?s"
    by (simp add: e)
  from C7_dirty_once [OF h1 h2, of "''hello''"]
  have "(\<exists>t. getTab 0 one_tab = Some t \<and> \<not> isDirty t)
      \<and> (\<exists>t. getTab 0 ((onDidChangeContent 0 ^^ Suc 2) one_tab) = Some t \<and> isDirty t)
      \<and> renders ((onDidChangeContent 0 ^^ Suc 2) one_tab) = renders one_tab + 1"
    unfolding n one_tab_def by blast
  with e n show ?thesis
    by auto
qed

text \<open>
  C8. In a state whose active tab \<open>a\<close> is shown by the editor with view \<open>v\<close>:
  \<open>switchTab\<close> to the active tab changes nothing; \<open>switchTab\<close> to another id \<open>b\<close>
  stores \<open>v\<close> as the view state of \<open>a\<close>; and switching back puts the editor on \<open>a\<close>
  with the view \<open>v\<close>. The way back does not depend on what happened in between: from
  any state where another tab is active and the tab has a saved view state, the switch
  to it restores exactly that view state.
\<close>

theorem C8_switch_away_and_back:
  assumes "getActiveTab s = Some a" and "editor s = Some (activeTabId s, v)"
      and "b \<noteq> activeTabId s"
  shows "switchTab (activeTabId s) s = s
       \<and> getTab (activeTabId s) (switchTab b s) = Some (a\<lparr>viewState := Some v\<rparr>)
       \<and> editor (switchTab (activeTabId s) (switchTab b s)) = Some (activeTabId s, v)
       \<and> (\<forall>u t w. getTab (activeTabId s) u = Some t \<and> viewState t = Some w
                  \<and> activeTabId u \<noteq> activeTabId s \<longrightarrow>
            editor (switchTab (activeTabId s) u) = Some (activeTabId s, w))"
proof -
  have save: "getTab (activeTabId s) (switchTab b s) = Some (a\<lparr>viewState := Some v\<rparr>)"
    using assms by (simp add: getTab_switchTab getActiveTab_def saveViewState_def)
  have restore: "editor (switchTab i u) = Some (i, w)"
    if "getTab i u = Some t" "viewState t = Some w" "activeTabId u \<noteq> i" for i u t w
    using that by (simp add: editor_switchTab)
  have "activeTabId (switchTab b s) \<noteq> activeTabId s"
    using assms(3) by simp
  with save restore [of "activeTabId s" "switchTab b s" "a\<lparr>viewState := Some v\<rparr>" v]
  have again: "editor (switchTab (activeTabId s) (switchTab b s)) = Some (activeTabId s, v)"
    by simp
  show ?thesis
    using save again restore by auto
qed

theorem C8_witness:
  "getActiveTab scrolled = Some (tabs scrolled ! 1)
   \<and> editor scrolled = Some (activeTabId scrolled, ViewState 40 7 3)
   \<and> 0 \<noteq> activeTabId scrolled
   \<and> map_option viewState (getTab 1 (switchTab 0 scrolled)) = Some (Some (ViewState 40 7 3))
   \<and> editor (switchTab 0 scrolled) = Some (0, ViewState 0 1 1)
   \<and> editor (switchTab 1 (switchTab 0 scrolled)) = Some (1, ViewState 40 7 3)"
proof -
  have h1: "getActiveTab scrolled = Some (tabs scrolled ! 1)"
    and h2: "editor scrolled = Some (activeTabId scrolled, ViewState 40 7 3)"
    and h3: "0 \<noteq> activeTabId scrolled"
    and a: "activeTabId scrolled = 1"
    by (simp_all add: scrolled_def two_tabs_eq getActiveTab_def getTab_def)
  have e: "editor (switchTab 0 scrolled) = Some (0, ViewState 0 1 1)"
    by (simp add: scrolled_def two_tabs_eq run_defs)
  from C8_switch_away_and_back [OF h1 h2 h3] h1 h2 h3 e show ?thesis
    unfolding a by simp
qed

section \<open>Saving\<close>

text \<open>
  C9. A save on an active tab, with a host that has \<open>save_dialog\<close>. When the response
  says \<open>saved\<close> and carries a path (a non-empty string), the tab gets that path, a clean
  flag and the language derived from the new path; no alert is shown. When there is no
  response, or it does not say \<open>saved\<close>, or it carries no path (\<open>null\<close> or the empty
  string), the tabs are as they were, nothing is rendered and no alert is shown: the
  request to the host is all that happened.
\<close>

theorem C9_save_updates_or_leaves:
  assumes "getActiveTab s = Some tab" and "has_api has_save_dialog s"
  shows "(res = Some r \<and> saved r \<and> res_path r = Some p \<and> p \<noteq> [] \<longrightarrow>
            (\<exists>s'. doSave res s = Inr s'
               \<and> getTab (tab_id tab) s' =
                   Some (tab\<lparr>path := Some p, isDirty := False,
                             model := (model tab)\<lparr>language := languageFromPath (languages s) (Some p)\<rparr>\<rparr>)
               \<and> getActiveTab s' = getTab (tab_id tab) s'
               \<and> alerts s' = alerts s))
       \<and> (res = None \<or> (res = Some r \<and> (\<not> saved r \<or> res_path r = None \<or> res_path r = Some [])) \<longrightarrow>
            (\<exists>s'. doSave res s = Inr s'
               \<and> tabs s' = tabs s \<and> getTab (tab_id tab) s' = Some tab
               \<and> alerts s' = alerts s \<and> renders s' = renders s
               \<and> host_calls s' = host_calls s @ [SaveDialog (buffer (model tab)) (path tab)]))"
proof -
  have i: "tab_id tab = activeTabId s" and f: "List.find (\<lambda>t. tab_id t = activeTabId s) (tabs s) = Some tab"
    using assms(1) getTab_in_tabs [of "activeTabId s" s tab]
    by (simp_all add: getActiveTab_def getTab_def)
  show ?thesis
    using assms i f
    by (cases "res_path r")
      (auto simp: doSave_def Let_def getTab_def getActiveTab_def find_update_tab_same
        setModelLanguage_def)
qed

theorem C9_witness:
  "getActiveTab edited_tab = Some (hd (tabs edited_tab))
   \<and> has_api has_save_dialog edited_tab
   \<and> path (hd (tabs edited_tab)) = Some ''a.txt'' \<and> isDirty (hd (tabs edited_tab))
   \<and> (case doSave (Some \<lparr>saved = True, res_path = Some ''c.py''\<rparr>) edited_tab of
         Inl e \<Rightarrow> False
       | Inr s' \<Rightarrow>
           getTab 0 s' =
             Some \<lparr>tab_id = 0, path = Some ''c.py'',
                   model = \<lparr>buffer = ''hello'', language = ''python''\<rparr>,
                   viewState = None, isDirty = False\<rparr>)
   \<and> (case doSave (Some \<lparr>saved = False, res_path = None\<rparr>) edited_tab of
         Inl e \<Rightarrow> False
       | Inr s' \<Rightarrow> tabs s' = tabs edited_tab \<and> alerts s' = [])"
proof -
  let ?ok = "\<lparr>saved = True, res_path = Some ''c.py''\<rparr>"
  let ?no = "\<lparr>saved = False, res_path = None\<rparr>"
  have h1: "getActiveTab edited_tab = Some (hd (tabs edited_tab))"
    by (simp add: edited_tab_eq getActiveTab_def getTab_def)
  have h2: "has_api has_save_dialog edited_tab"
    by (simp add: edited_tab_eq has_api_def full_host_def)
  have t: "hd (tabs edited_tab) =
      \<lparr>tab_id = 0, path = Some ''a.txt'', model = \<lparr>buffer = ''hello'', language = ''plaintext''\<rparr>,
        viewState = None, isDirty = True\<rparr>"
    and a: "alerts edited_tab = []"
    and l: "languageFromPath (languages edited_tab) (Some ''c.py'') = ''python''"
    by (simp_all add: edited_tab_eq languageFromPath_def after_last_def)
  from C9_save_updates_or_leaves [OF h1 h2, of "Some ?ok" ?ok "''c.py''"]
  obtain s1 where s1: "doSave (Some ?ok) edited_tab = Inr s1"
    "getTab (tab_id (hd (tabs edited_tab))) s1 =
       Some ((hd (tabs edited_tab))\<lparr>path := Some ''c.py'', isDirty := False,
          model := (model (hd (tabs edited_tab)))\<lparr>language :=
            languageFromPath (languages edited_tab) (Some ''c.py'')\<rparr>\<rparr>)"
    by auto
  from C9_save_updates_or_leaves [OF h1 h2, of "Some ?no" ?no]
  obtain s2 where s2: "doSave (Some ?no) edited_tab = Inr s2"
    "tabs s2 = tabs edited_tab" "alerts s2 = alerts edited_tab"
    by auto
  from h1 h2 s1 s2 show ?thesis
    unfolding l by (simp add: t a)
qed

end
